theory Spec2Isabelle
  imports Main "HOL-Library.AList"
begin

section \<open>JavaScript values and errors\<close>

text \<open>
  The errors the renderer raises. In the source they are plain \<^verbatim>\<open>Error\<close> objects told
  apart by their message, and \<^verbatim>\<open>FragmentRenderError\<close> (errors.js), which wraps an original
  error. The constructors carry the names the specification gives them:
  \<^item> \<open>EmptyBody\<close>: \<^verbatim>\<open>new Error('A fragment body is undefined')\<close>;
  \<^item> \<open>UnknownFragmentReference n\<close>: \<^verbatim>\<open>new Error('A source fragment does not exist with name ' + n)\<close>;
  \<^item> \<open>MissingTemplateSpecification\<close>: \<^verbatim>\<open>new Error('A fragment inject found with no name or embed')\<close>;
  \<^item> \<open>InvalidRepeatSource p\<close>: the \<^verbatim>\<open>Error\<close> about a list source "which doesnt exist or isnt
    specified as a dependency" with accessor \<open>p\<close>;
  \<^item> \<open>MissingDataSource n\<close>: the \<^verbatim>\<open>Error\<close> about a data source fragment "which doesnt exist in
    configuration" with name \<open>n\<close>;
  \<^item> \<open>TypeError m\<close>: what the JavaScript runtime throws on a call of a missing method;
  \<^item> \<open>ExternalError m\<close>: any failure of a collaborator (the fetcher, the template engine);
  \<^item> \<open>FragmentRenderError e\<close>: \<^verbatim>\<open>new FragmentRenderError(e)\<close>.
\<close>

datatype error =
    EmptyBody
  | UnknownFragmentReference string
  | MissingTemplateSpecification
  | InvalidRepeatSource string
  | MissingDataSource string
  | TypeError string
  | ExternalError string
  | FragmentRenderError error

text \<open>\<^verbatim>\<open>error instanceof FragmentRenderError\<close>\<close>

fun instanceofFragmentRenderError :: "error \<Rightarrow> bool" where
  "instanceofFragmentRenderError (FragmentRenderError e) = True"
| "instanceofFragmentRenderError e = False"

text \<open>
  The \<^verbatim>\<open>message\<close> property; \<^verbatim>\<open>BaseError\<close> copies the message of the error it wraps.
\<close>

fun errorMessage :: "error \<Rightarrow> string" where
  "errorMessage EmptyBody = ''A fragment body is undefined''"
| "errorMessage (UnknownFragmentReference n) = ''A source fragment does not exist with name '' @ n"
| "errorMessage MissingTemplateSpecification = ''A fragment inject found with no name or embed''"
| "errorMessage (InvalidRepeatSource p) =
     ''Attempting to render a list of data with source which doesnt exist or isnt specified as a dependency with accessor '' @ [CHR 0x27] @ p @ [CHR 0x27]"
| "errorMessage (MissingDataSource n) =
     ''Attempting to render with a data source fragment which doesnt exist in configuration (name '' @ n @ '')''"
| "errorMessage (TypeError m) = m"
| "errorMessage (ExternalError m) = m"
| "errorMessage (FragmentRenderError e) = errorMessage e"

fun errorName :: "error \<Rightarrow> string" where
  "errorName (FragmentRenderError e) = ''FragmentRenderError''"
| "errorName (TypeError m) = ''TypeError''"
| "errorName e = ''Error''"

text \<open>
  The values that flow through the renderer: fragment bodies, template data, fallback
  messages. Numbers are restricted to integers; an object is the list of its own
  properties in insertion order.
\<close>

datatype jsval =
    JUndefined
  | JNull
  | JBool bool
  | JNum int
  | JStr string
  | JArr "jsval list"
  | JObj "(string \<times> jsval) list"
  | JErr error

text \<open>Truthiness, as \<^verbatim>\<open>!!v\<close>, \<^verbatim>\<open>a || b\<close> and \<^verbatim>\<open>a && b\<close> test it: arrays and objects are always truthy.\<close>

fun truthy :: "jsval \<Rightarrow> bool" where
  "truthy JUndefined = False"
| "truthy JNull = False"
| "truthy (JBool b) = b"
| "truthy (JNum n) = (n \<noteq> 0)"
| "truthy (JStr s) = (s \<noteq> [])"
| "truthy (JArr xs) = True"
| "truthy (JObj ps) = True"
| "truthy (JErr e) = True"

definition js_or :: "jsval \<Rightarrow> jsval \<Rightarrow> jsval" where
  "js_or a b = (if truthy a then a else b)"

text \<open>Decimal digits of a number, for string conversion.\<close>

fun digits :: "nat \<Rightarrow> string" where
  "digits n = (if n < 10 then [char_of (48 + n)] else digits (n div 10) @ [char_of (48 + n mod 10)])"

definition showInt :: "int \<Rightarrow> string" where
  "showInt i = (if i < 0 then CHR ''-'' # digits (nat (- i)) else digits (nat i))"

fun intercalate :: "string \<Rightarrow> string list \<Rightarrow> string" where
  "intercalate sep [] = []"
| "intercalate sep [x] = x"
| "intercalate sep (x # y # ys) = x @ sep @ intercalate sep (y # ys)"

text \<open>
  \<^verbatim>\<open>String(v)\<close>, the conversion string concatenation applies to its operand: a plain object
  becomes \<^verbatim>\<open>[object Object]\<close>, an array joins its elements with commas (\<^verbatim>\<open>null\<close> and
  \<^verbatim>\<open>undefined\<close> elements as the empty string), an error is its name and message.
\<close>

fun toString :: "jsval \<Rightarrow> string" where
  "toString JUndefined = ''undefined''"
| "toString JNull = ''null''"
| "toString (JBool b) = (if b then ''true'' else ''false'')"
| "toString (JNum n) = showInt n"
| "toString (JStr s) = s"
| "toString (JArr xs) =
     intercalate '','' (map (\<lambda>x. if x = JUndefined \<or> x = JNull then [] else toString x) xs)"
| "toString (JObj ps) = ''[object Object]''"
| "toString (JErr e) =
     (if errorMessage e = [] then errorName e else errorName e @ '': '' @ errorMessage e)"

text \<open>\<^verbatim>\<open>s.substring(a, b)\<close>: the arguments are swapped when \<open>a > b\<close> and clamped to the length.\<close>

definition substring :: "string \<Rightarrow> nat \<Rightarrow> nat \<Rightarrow> string" where
  "substring s a b = take (max a b - min a b) (drop (min a b) s)"

text \<open>\<^verbatim>\<open>s.substring(a)\<close>\<close>

definition substringFrom :: "string \<Rightarrow> nat \<Rightarrow> string" where
  "substringFrom s a = drop a s"

text \<open>\<^verbatim>\<open>s.split(c)\<close> for a one-character separator.\<close>

fun split :: "char \<Rightarrow> string \<Rightarrow> string list" where
  "split sep [] = [[]]"
| "split sep (c # cs) =
     (if c = sep then [] # split sep cs
      else (case split sep cs of [] \<Rightarrow> [[c]] | w # ws \<Rightarrow> (c # w) # ws))"

text \<open>The characters \<^verbatim>\<open>\s\<close> matches and \<^verbatim>\<open>trim\<close> removes, among the code units below 256.\<close>

definition isSpace :: "char \<Rightarrow> bool" where
  "isSpace c = (c \<in> set [CHR 0x09, CHR 0x0A, CHR 0x0B, CHR 0x0C, CHR 0x0D, CHR 0x20, CHR 0xA0])"

definition trim :: "string \<Rightarrow> string" where
  "trim s = rev (dropWhile isSpace (rev (dropWhile isSpace s)))"

section \<open>The regular expressions of the renderer\<close>

text \<open>
  All the expressions carry the flag \<^verbatim>\<open>i\<close>: two characters match when they are equal after
  the letters \<^verbatim>\<open>a\<close> to \<^verbatim>\<open>z\<close> are put in upper case.
\<close>

definition canonicalize :: "char \<Rightarrow> char" where
  "canonicalize c =
     (case map_of (zip ''abcdefghijklmnopqrstuvwxyz'' ''ABCDEFGHIJKLMNOPQRSTUVWXYZ'') c of
        Some u \<Rightarrow> u
      | None \<Rightarrow> c)"

text \<open>\<open>startsWith p s\<close>: the literal \<open>p\<close> matches at the start of \<open>s\<close>, ignoring case.\<close>

fun startsWith :: "string \<Rightarrow> string \<Rightarrow> bool" where
  "startsWith [] s = True"
| "startsWith (p # ps) [] = False"
| "startsWith (p # ps) (c # cs) =
     (if canonicalize p = canonicalize c then startsWith ps cs else False)"

text \<open>
  \<^verbatim>\<open>([\s\S]*?)<\/fragment-inject>\<close>: the lazy group stops at the first closing tag. The result
  is the group and the number of characters matched, closing tag included.
\<close>

definition closeTag :: string where
  "closeTag = ''</fragment-inject>''"

fun matchClose :: "string \<Rightarrow> (string \<times> nat) option" where
  "matchClose [] = None"
| "matchClose (c # cs) =
     (if startsWith closeTag (c # cs) then Some ([], length closeTag)
      else (case matchClose cs of
              None \<Rightarrow> None
            | Some (embedded, n) \<Rightarrow> Some (c # embedded, Suc n)))"

text \<open>
  \<^verbatim>\<open><fragment-inject ([^>]+)>([\s\S]*?)<\/fragment-inject>\<close> tried at the start of \<open>s\<close>. The
  greedy group \<^verbatim>\<open>([^>]+)\<close> can only end at the first \<^verbatim>\<open>>\<close>, since it is followed by one.
  The result is the two groups and the length of the match.
\<close>

definition openTag :: string where
  "openTag = ''<fragment-inject ''"

definition matchInjectAt :: "string \<Rightarrow> (string \<times> string \<times> nat) option" where
  "matchInjectAt s =
     (if startsWith openTag s then
        (let rest = drop (length openTag) s;
             commandAttribs = takeWhile (\<lambda>c. c \<noteq> CHR ''>'') rest;
             after = drop (length commandAttribs) rest
         in if commandAttribs = [] then None
            else (case after of
                    [] \<Rightarrow> None
                  | gt # body \<Rightarrow>
                      (case matchClose body of
                         None \<Rightarrow> None
                       | Some (embedded, n) \<Rightarrow>
                           Some (commandAttribs, embedded,
                                 length openTag + length commandAttribs + 1 + n))))
      else None)"

text \<open>
  A match of the tag expression: the groups, \<^verbatim>\<open>match.index\<close> and the \<^verbatim>\<open>lastIndex\<close> the
  expression is left with.
\<close>

record rmatch =
  commandAttribs :: string
  embeddedTemplate :: string
  index :: nat
  lastIndex :: nat

text \<open>
  The leftmost match in \<open>s\<close>, whose first character has offset \<open>off\<close> in the whole input.
\<close>

fun searchInject :: "nat \<Rightarrow> string \<Rightarrow> rmatch option" where
  "searchInject off [] = None"
| "searchInject off (c # cs) =
     (case matchInjectAt (c # cs) of
        Some (a, e, n) \<Rightarrow>
          Some \<lparr>commandAttribs = a, embeddedTemplate = e, index = off, lastIndex = off + n\<rparr>
      | None \<Rightarrow> searchInject (Suc off) cs)"

text \<open>
  \<^verbatim>\<open>fragmentTagRegexp.exec(fragmentBody)\<close> with the global flag: the search starts at the
  expression's \<^verbatim>\<open>lastIndex\<close>, here the argument \<open>pos\<close>.
\<close>

definition execInject :: "string \<Rightarrow> nat \<Rightarrow> rmatch option" where
  "execInject s pos = searchInject pos (drop pos s)"

text \<open>
  The attribute expressions \<^verbatim>\<open>KEY=["']([^\s>]+)["']\<close>. After the opening quote the greedy
  group takes the longest run free of white space and \<^verbatim>\<open>>\<close>, then gives characters back
  until a quote follows it: it ends before the last quote of the run, and holds at least one
  character.
\<close>

definition isQuote :: "char \<Rightarrow> bool" where
  "isQuote c = (c = CHR 0x22 \<or> c = CHR 0x27)"

definition quotedValue :: "string \<Rightarrow> string option" where
  "quotedValue s =
     (case s of
        [] \<Rightarrow> None
      | q # cs \<Rightarrow>
          if isQuote q then
            (let run = takeWhile (\<lambda>c. \<not> isSpace c \<and> c \<noteq> CHR ''>'') cs;
                 upto = rev (dropWhile (\<lambda>c. \<not> isQuote c) (rev run))
             in if butlast upto = [] then None else Some (butlast upto))
          else None)"

text \<open>\<^verbatim>\<open>regex.exec(commandAttribs)\<close> for such an expression: group 1 of the leftmost match.\<close>

fun execAttribute :: "string \<Rightarrow> string \<Rightarrow> string option" where
  "execAttribute key [] = None"
| "execAttribute key (c # cs) =
     (case (if startsWith key (c # cs) then quotedValue (drop (length key) (c # cs)) else None) of
        Some v \<Rightarrow> Some v
      | None \<Rightarrow> execAttribute key cs)"

text \<open>
  The flag expressions \<^verbatim>\<open>(?:^|\s)WORD(?:$|\s|>)\<close> with the flag \<^verbatim>\<open>m\<close>: the word stands at
  the start of the input or after a white space character (the line terminators are white
  space), and is followed by the end of the input, a white space character or \<^verbatim>\<open>>\<close>.
  \<open>prev\<close> says whether the position before the current one allows the word to start.
\<close>

definition wordEnds :: "string \<Rightarrow> bool" where
  "wordEnds s = (case s of [] \<Rightarrow> True | c # cs \<Rightarrow> isSpace c \<or> c = CHR ''>'')"

fun testWord :: "string \<Rightarrow> bool \<Rightarrow> string \<Rightarrow> bool" where
  "testWord w prev [] = False"
| "testWord w prev (c # cs) =
     (if prev \<and> startsWith w (c # cs) \<and> wordEnds (drop (length w) (c # cs)) then True
      else testWord w (isSpace c) cs)"

section \<open>Fragments\<close>

text \<open>
  A fallback message is configured as a function of the error or as a literal value
  (\<^verbatim>\<open>typeof callbackOrMessage === 'function'\<close>); a message that is not configured is the
  literal \<^verbatim>\<open>undefined\<close>.
\<close>

datatype message = Literal jsval | Callback "jsval \<Rightarrow> jsval"

datatype url = RemoteUrl string | LocalFilePath string

text \<open>
  A \<^verbatim>\<open>Fragment\<close> holds the options it was constructed with. \<open>None\<close> and \<open>JUndefined\<close>
  stand for an option that was not given.
\<close>

record Fragment =
  cfg_url :: "url option"
  cfg_data :: jsval
  cfg_bodyType :: "string option"
  cfg_requiredData :: "string list option"
  cfg_required :: jsval
  cfg_contentMissingMessage :: message
  cfg_contentRenderErrorMessage :: message

definition noOptions :: Fragment where
  "noOptions = \<lparr>cfg_url = None, cfg_data = JUndefined, cfg_bodyType = None,
     cfg_requiredData = None, cfg_required = JUndefined,
     cfg_contentMissingMessage = Literal JUndefined,
     cfg_contentRenderErrorMessage = Literal JUndefined\<rparr>"

text \<open>The builders \<^verbatim>\<open>base\<close>, \<^verbatim>\<open>html\<close> and \<^verbatim>\<open>json\<close>, applied: the fragment each one builds.\<close>

definition base :: "Fragment \<Rightarrow> Fragment" where
  "base options = options\<lparr>cfg_required := JBool True\<rparr>"

definition html :: "Fragment \<Rightarrow> Fragment" where
  "html options = options\<lparr>cfg_bodyType := Some ''html''\<rparr>"

definition json :: "Fragment \<Rightarrow> Fragment" where
  "json options = options\<lparr>cfg_bodyType := Some ''json''\<rparr>"

text \<open>\<^verbatim>\<open>get requiredData() { return this._requiredData || []; }\<close>\<close>

definition requiredData :: "Fragment \<Rightarrow> string list" where
  "requiredData f = (case cfg_requiredData f of None \<Rightarrow> [] | Some names \<Rightarrow> names)"

text \<open>\<^verbatim>\<open>get isRequired() { return !!this._required; }\<close>\<close>

definition isRequired :: "Fragment \<Rightarrow> bool" where
  "isRequired f = truthy (cfg_required f)"

definition localData :: "Fragment \<Rightarrow> jsval" where
  "localData f = cfg_data f"

definition resolveMessage :: "message \<Rightarrow> jsval \<Rightarrow> jsval" where
  "resolveMessage callbackOrMessage fetchError =
     (case callbackOrMessage of Callback cb \<Rightarrow> cb fetchError | Literal m \<Rightarrow> m)"

definition contentMissingMessage :: "Fragment \<Rightarrow> jsval \<Rightarrow> jsval" where
  "contentMissingMessage f fetchError =
     (let message = resolveMessage (cfg_contentMissingMessage f) fetchError
      in JObj [(''body'',
                js_or message (JStr ''<p>Sorry this content could not be fetched. Please try again.</p>'')),
               (''contentType'',
                (case message of JStr m \<Rightarrow> JStr ''text/html'' | _ \<Rightarrow> JStr ''application/json''))])"

definition contentRenderErrorMessage :: "Fragment \<Rightarrow> jsval \<Rightarrow> jsval" where
  "contentRenderErrorMessage f fetchError =
     (let message = resolveMessage (cfg_contentRenderErrorMessage f) fetchError
      in js_or message (JStr ''<p>Sorry this content could not be rendered. Please try again.</p>''))"

section \<open>Fetched bodies, routes and the fragment manager\<close>

record FragmentBody =
  body :: jsval
  contentType :: jsval

text \<open>\<^verbatim>\<open>constructor(body, contentType = 'text/html')\<close>: the default stands in for \<^verbatim>\<open>undefined\<close>.\<close>

definition newFragmentBody :: "jsval \<Rightarrow> jsval \<Rightarrow> FragmentBody" where
  "newFragmentBody b ct =
     \<lparr>body = b, contentType = (if ct = JUndefined then JStr ''text/html'' else ct)\<rparr>"

text \<open>
  Of a route the renderer reads the base template and the named fragments; a route without
  fragments has the empty map (\<^verbatim>\<open>route.fragments || {}\<close>).
\<close>

record Route =
  baseTemplate :: Fragment
  fragments :: "string \<rightharpoonup> Fragment"

text \<open>
  The manager keeps its fragments in the table \<^verbatim>\<open>_sourceFragments\<close>, a plain object, and
  reads it by \<^verbatim>\<open>this._sourceFragments[name]\<close>. Such a read gives the fragment stored under
  the name, or, for a name the table does not hold itself, what the table inherits from
  \<^verbatim>\<open>Object.prototype\<close> under that name (a function, or the prototype for \<^verbatim>\<open>__proto__\<close>),
  or \<^verbatim>\<open>undefined\<close>. An inherited value is truthy and is no fragment: it has none of the
  properties and methods of one.
\<close>

datatype entry = Instance Fragment | Inherited string | Undefined

definition objectPrototypeProperties :: "string list" where
  "objectPrototypeProperties =
     [''constructor'', ''__defineGetter__'', ''__defineSetter__'', ''hasOwnProperty'',
      ''__lookupGetter__'', ''__lookupSetter__'', ''isPrototypeOf'', ''propertyIsEnumerable'',
      ''toString'', ''valueOf'', ''__proto__'', ''toLocaleString'']"

text \<open>
  The fetcher is the caller's: it receives what the manager hands it in the place of the
  fragment, the rendering context and the options (\<open>None\<close> for \<^verbatim>\<open>{}\<close>, \<open>Some b\<close> for
  \<^verbatim>\<open>{neverHandleError: b}\<close>). It resolves to a body or rejects, and it may keep a state of its
  own of type \<open>'s\<close>, which every call reads and updates.
\<close>

type_synonym ('c, 's) fetcher =
  "entry \<Rightarrow> 'c \<Rightarrow> bool option \<Rightarrow> 's \<Rightarrow> (error + FragmentBody) \<times> 's"

text \<open>
  The constructor instantiates every fragment of the route once and stores it under its
  name. (A route that names a fragment \<^verbatim>\<open>__proto__\<close> would replace the prototype of the
  table by that assignment; such a route is not modelled.)
\<close>

record ('c, 's) FragmentManager =
  m_context :: 'c
  m_fetch :: "('c, 's) fetcher"
  m_route :: Route
  m_sourceFragments :: "string \<Rightarrow> entry"

definition newFragmentManager ::
  "Route \<Rightarrow> ('c, 's) fetcher \<Rightarrow> 'c \<Rightarrow> ('c, 's) FragmentManager" where
  "newFragmentManager route fragmentFetcher context =
     \<lparr>m_context = context, m_fetch = fragmentFetcher, m_route = route,
      m_sourceFragments =
        (\<lambda>name. case fragments route name of
                   Some f \<Rightarrow> Instance f
                 | None \<Rightarrow>
                     if name \<in> set objectPrototypeProperties then Inherited name else Undefined)\<rparr>"

text \<open>\<^verbatim>\<open>promise.then(f => f.body)\<close> and \<^verbatim>\<open>promise.then(f => f.contentType)\<close>\<close>

definition thenProject ::
  "(FragmentBody \<Rightarrow> jsval) \<Rightarrow> (error + FragmentBody) \<times> 's \<Rightarrow> (error + jsval) \<times> 's" where
  "thenProject p r = (case r of (Inl e, s) \<Rightarrow> (Inl e, s) | (Inr f, s) \<Rightarrow> (Inr (p f), s))"

definition fetchBase ::
  "('c, 's) FragmentManager \<Rightarrow> bool option \<Rightarrow> 's \<Rightarrow> (error + FragmentBody) \<times> 's" where
  "fetchBase m options s =
     m_fetch m (Instance (baseTemplate (m_route m))) (m_context m) options s"

definition baseBody ::
  "('c, 's) FragmentManager \<Rightarrow> bool option \<Rightarrow> 's \<Rightarrow> (error + jsval) \<times> 's" where
  "baseBody m options s = thenProject body (fetchBase m options s)"

definition baseContentType ::
  "('c, 's) FragmentManager \<Rightarrow> bool option \<Rightarrow> 's \<Rightarrow> (error + jsval) \<times> 's" where
  "baseContentType m options s = thenProject contentType (fetchBase m options s)"

definition fetchFragmentBody ::
  "('c, 's) FragmentManager \<Rightarrow> entry \<Rightarrow> bool option \<Rightarrow> 's \<Rightarrow> (error + jsval) \<times> 's" where
  "fetchFragmentBody m template options s =
     thenProject body (m_fetch m template (m_context m) options s)"

definition fragmentBody ::
  "('c, 's) FragmentManager \<Rightarrow> string \<Rightarrow> bool option \<Rightarrow> 's \<Rightarrow> (error + jsval) \<times> 's" where
  "fragmentBody m name options s =
     thenProject body (m_fetch m (m_sourceFragments m name) (m_context m) options s)"

definition fragment :: "('c, 's) FragmentManager \<Rightarrow> string \<Rightarrow> entry" where
  "fragment m name = m_sourceFragments m name"

text \<open>
  \<^verbatim>\<open>!!this._sourceFragments[name]\<close>: a fragment is truthy, and so is every value inherited
  from \<^verbatim>\<open>Object.prototype\<close>.
\<close>

definition hasFragment :: "('c, 's) FragmentManager \<Rightarrow> string \<Rightarrow> bool" where
  "hasFragment m name =
     (case m_sourceFragments m name of
        Instance f \<Rightarrow> True
      | Inherited n \<Rightarrow> True
      | Undefined \<Rightarrow> False)"

text \<open>
  \<^verbatim>\<open>toInject.isRequired\<close> and \<^verbatim>\<open>toInject.requiredData\<close> for what the manager gave as the
  fragment: an inherited value has neither property, so the first is falsy and the second
  \<^verbatim>\<open>undefined\<close> (\<open>None\<close>).
\<close>

definition isRequiredOf :: "entry \<Rightarrow> bool" where
  "isRequiredOf toInject = (case toInject of Instance f \<Rightarrow> isRequired f | _ \<Rightarrow> False)"

definition requiredDataOf :: "entry \<Rightarrow> string list option" where
  "requiredDataOf toInject = (case toInject of Instance f \<Rightarrow> Some (requiredData f) | _ \<Rightarrow> None)"

section \<open>The renderer\<close>

text \<open>
  The two library functions the renderer calls: \<^verbatim>\<open>dotEngine.template(str)(data)\<close>, which
  returns a string or throws, and \<^verbatim>\<open>getProperty(object, path)\<close> (lodash.get).
\<close>

record Engine =
  dotTemplate :: "jsval \<Rightarrow> jsval \<Rightarrow> error + string"
  getProperty :: "(string \<times> jsval) list \<Rightarrow> string \<Rightarrow> jsval"

text \<open>
  A renderer holds its manager. The fetches of one rendering run side by side, in no
  fixed order, so the renderer does not thread the fetcher's state through them: each of its
  fetches reads the fetcher at \<open>fstate\<close>, the state the fetcher is in when the recursive
  rendering starts. The logger only writes messages and is left out.
\<close>

record ('c, 's) Renderer =
  engine :: Engine
  manager :: "('c, 's) FragmentManager"
  fstate :: 's

definition await :: "('c, 's) Renderer \<Rightarrow> ('s \<Rightarrow> 'a \<times> 's) \<Rightarrow> 'a" where
  "await R call = fst (call (fstate R))"

definition MAX_DEPTH :: nat where
  "MAX_DEPTH = 5"

text \<open>
  A promise is modelled by the result it settles to: \<open>Inl\<close> a rejection, \<open>Inr\<close> a value.
  \<^verbatim>\<open>Promise.all\<close> and \<^verbatim>\<open>Promise.props\<close> reject as soon as one member rejects; with every
  result known at once, that is the first rejected member in list order.
\<close>

fun promiseAll :: "(error + 'a) list \<Rightarrow> error + 'a list" where
  "promiseAll [] = Inr []"
| "promiseAll (p # ps) =
     (case p of
        Inl e \<Rightarrow> Inl e
      | Inr v \<Rightarrow> (case promiseAll ps of Inl e \<Rightarrow> Inl e | Inr vs \<Rightarrow> Inr (v # vs)))"

fun promiseProps :: "(string \<times> (error + 'a)) list \<Rightarrow> error + (string \<times> 'a) list" where
  "promiseProps [] = Inr []"
| "promiseProps ((k, p) # ps) =
     (case p of
        Inl e \<Rightarrow> Inl e
      | Inr v \<Rightarrow> (case promiseProps ps of Inl e \<Rightarrow> Inl e | Inr vs \<Rightarrow> Inr ((k, v) # vs)))"

text \<open>\<^verbatim>\<open>Object.assign(target, source)\<close>: the properties of \<open>source\<close> are written over \<open>target\<close>.\<close>

definition objectAssign :: "(string \<times> jsval) list \<Rightarrow> (string \<times> jsval) list \<Rightarrow> (string \<times> jsval) list" where
  "objectAssign target source = foldl (\<lambda>acc (k, v). AList.update k v acc) target source"

text \<open>\<^verbatim>\<open>v.length\<close>, for a value that is neither \<^verbatim>\<open>null\<close> nor \<^verbatim>\<open>undefined\<close>.\<close>

fun lengthOf :: "jsval \<Rightarrow> jsval" where
  "lengthOf (JStr s) = JNum (int (length s))"
| "lengthOf (JArr xs) = JNum (int (length xs))"
| "lengthOf (JObj ps) = (case map_of ps ''length'' of Some v \<Rightarrow> v | None \<Rightarrow> JUndefined)"
| "lengthOf v = JUndefined"

text \<open>
  \<^verbatim>\<open>_injectReplacements\<close>: each part comes with the start and end offsets of the tag it
  replaces. \<^verbatim>\<open>acc + prefix + part\<close> converts the part to a string; a source text that is not
  a string has no \<^verbatim>\<open>substring\<close> method.
\<close>

definition injectReplacements :: "jsval \<Rightarrow> (nat \<times> nat \<times> jsval) list \<Rightarrow> error + jsval" where
  "injectReplacements sourceText parts =
     (case sourceText of
        JStr s \<Rightarrow>
          (case foldl (\<lambda>(prevStart, acc) (start, end, part).
                         (end, acc @ substring s prevStart start @ toString part))
                      (0, []) parts of
             (endOfMatches, lead) \<Rightarrow> Inr (JStr (lead @ substringFrom s endOfMatches)))
      | _ \<Rightarrow> Inl (TypeError ''sourceText.substring is not a function''))"

text \<open>
  \<^verbatim>\<open>_testInjectAttributes\<close>. The result of \<^verbatim>\<open>exec\<close> is \<open>None\<close> for \<^verbatim>\<open>null\<close>; the required
  sources are always an array, the empty one when there is no \<^verbatim>\<open>models\<close> attribute.
\<close>

definition testInjectAttributes ::
  "string \<Rightarrow> bool \<times> string option \<times> string option \<times> bool \<times> string list" where
  "testInjectAttributes attribs =
     (let containsTemplate = testWord ''template'' True attribs;
          iterateOverDataName = execAttribute ''fragment-repeat='' attribs;
          templateNameToInject = execAttribute ''fragment-name='' attribs;
          specifiedRequired = testWord ''required'' True attribs;
          requiredSources =
            (case execAttribute ''models='' attribs of
               None \<Rightarrow> []
             | Some g \<Rightarrow> if g = [] then [] else map trim (split CHR '','' g))
      in (containsTemplate, iterateOverDataName, templateNameToInject, specifiedRequired,
          requiredSources))"

text \<open>
  \<^verbatim>\<open>_renderFragmentPart\<close>. The functions below take \<^verbatim>\<open>this.renderRecursive\<close> as the
  argument \<open>renderRecursive\<close>; the function itself is defined after them and passes itself.
\<close>

definition renderFragmentPart ::
  "('c, 's) Renderer \<Rightarrow> (jsval \<Rightarrow> nat \<Rightarrow> error + jsval) \<Rightarrow> nat \<Rightarrow> jsval \<Rightarrow> jsval
     \<Rightarrow> error + string" where
  "renderFragmentPart R renderRecursive currentDepth fragmentBody' dataForView =
     (case renderRecursive fragmentBody' (currentDepth + 1) of
        Inl error \<Rightarrow> Inl (FragmentRenderError error)
      | Inr str \<Rightarrow>
          (case dotTemplate (engine R) str dataForView of
             Inl error \<Rightarrow> Inl (FragmentRenderError error)
           | Inr out \<Rightarrow> Inr out))"

lemma renderFragmentPart_ext:
  "(\<And>x. rr x (d + 1) = rr' x (d + 1)) \<Longrightarrow> renderFragmentPart R rr d = renderFragmentPart R rr' d"
  by (intro ext) (simp add: renderFragmentPart_def)

text \<open>
  An optional string in a condition (\<^verbatim>\<open>if (templateNameToInject)\<close>,
  \<^verbatim>\<open>repeatedDataName && ...\<close>): \<^verbatim>\<open>null\<close> and the empty string are falsy.
\<close>

fun truthyName :: "string option \<Rightarrow> string option" where
  "truthyName None = None"
| "truthyName (Some s) = (if s = [] then None else Some s)"

text \<open>\<^verbatim>\<open>path.split('.')[0]\<close>\<close>

definition firstSegment :: "string \<Rightarrow> string" where
  "firstSegment path = (case split CHR ''.'' path of [] \<Rightarrow> [] | w # ws \<Rightarrow> w)"

definition repeatRoot :: "string option \<Rightarrow> string option" where
  "repeatRoot repeatedDataName = map_option firstSegment repeatedDataName"

text \<open>
  The \<^verbatim>\<open>map\<close> over the required sources: it throws at the first name that is not a known
  fragment, and otherwise pairs each name with the promise of its body.
\<close>

fun dataPromises ::
  "('c, 's) Renderer \<Rightarrow> string option \<Rightarrow> string list \<Rightarrow> error + (string \<times> (error + jsval)) list" where
  "dataPromises R repeatedDataNameFragName [] = Inr []"
| "dataPromises R repeatedDataNameFragName (name # names) =
     (if \<not> hasFragment (manager R) name then Inl (FragmentRenderError (MissingDataSource name))
      else (case dataPromises R repeatedDataNameFragName names of
              Inl e \<Rightarrow> Inl e
            | Inr ps \<Rightarrow>
                Inr ((name,
                      await R (fragmentBody (manager R) name
                                 (Some (repeatedDataNameFragName = Some name)))) # ps)))"

text \<open>The \<^verbatim>\<open>reduce\<close> that collects the pairs into an object: \<^verbatim>\<open>acc[key] = promise\<close>.\<close>

definition dataObject :: "(string \<times> 'a) list \<Rightarrow> (string \<times> 'a) list" where
  "dataObject pairs = foldl (\<lambda>acc (key, promise). AList.update key promise acc) [] pairs"

text \<open>\<^verbatim>\<open>const sources = await Promise.props(dataObject)\<close>\<close>

definition fetchSources ::
  "('c, 's) Renderer \<Rightarrow> string option \<Rightarrow> string list \<Rightarrow> error + (string \<times> jsval) list" where
  "fetchSources R repeatedDataNameFragName requiredSources' =
     (case dataPromises R repeatedDataNameFragName requiredSources' of
        Inl e \<Rightarrow> Inl e
      | Inr pairs \<Rightarrow> promiseProps (dataObject pairs))"

text \<open>
  The \<^verbatim>\<open>try\<close> block of \<^verbatim>\<open>_renderFragment\<close>. The cases are split on whether
  \<^verbatim>\<open>repeatedDataName\<close> is truthy, which the source tests before and after fetching the
  sources.
\<close>

definition renderFragmentTry ::
  "('c, 's) Renderer \<Rightarrow> (jsval \<Rightarrow> nat \<Rightarrow> error + jsval) \<Rightarrow> nat \<Rightarrow> jsval \<Rightarrow> string list
     \<Rightarrow> string option \<Rightarrow> error + jsval" where
  "renderFragmentTry R renderRecursive currentDepth fragmentContent requiredSources' repeatedDataName =
     (case truthyName repeatedDataName of
        None \<Rightarrow>
          (case fetchSources R (repeatRoot repeatedDataName) requiredSources' of
             Inl e \<Rightarrow> Inl e
           | Inr sources \<Rightarrow>
               (case renderFragmentPart R renderRecursive currentDepth fragmentContent (JObj sources) of
                  Inl e \<Rightarrow> Inl e
                | Inr out \<Rightarrow> Inr (JStr out)))
      | Some path \<Rightarrow>
          (let repeatedDataNameFragName = firstSegment path
           in if \<not> hasFragment (manager R) repeatedDataNameFragName
                 \<or> repeatedDataNameFragName \<notin> set requiredSources'
              then Inl (FragmentRenderError (InvalidRepeatSource path))
              else
                (case fetchSources R (Some repeatedDataNameFragName) requiredSources' of
                   Inl e \<Rightarrow> Inl e
                 | Inr sources \<Rightarrow>
                     (case map_of sources repeatedDataNameFragName of
                        Some (JErr fetchError) \<Rightarrow>
                          (case fragment (manager R) repeatedDataNameFragName of
                             Instance f \<Rightarrow> Inr (contentMissingMessage f (JErr fetchError))
                           | Inherited n \<Rightarrow>
                               Inl (TypeError ''contentMissingMessage is not a function'')
                           | Undefined \<Rightarrow>
                               Inl (TypeError ''Cannot read property contentMissingMessage of undefined''))
                      | _ \<Rightarrow>
                          (let dataBody = getProperty (engine R) sources path
                           in if truthy dataBody \<and> truthy (lengthOf dataBody) then
                                (case dataBody of
                                   JArr ds \<Rightarrow>
                                     (case promiseAll
                                             (map (\<lambda>d. renderFragmentPart R renderRecursive currentDepth
                                                          fragmentContent
                                                          (JObj (objectAssign [(''current'', d)] sources)))
                                                  ds) of
                                        Inl e \<Rightarrow> Inl e
                                      | Inr data \<Rightarrow> Inr (JStr (concat data)))
                                 | _ \<Rightarrow> Inl (TypeError ''dataBody.map is not a function''))
                              else Inr (JStr []))))))"

text \<open>
  The \<^verbatim>\<open>catch\<close> block of \<^verbatim>\<open>_renderFragment\<close>. The call
  \<^verbatim>\<open>injectedFragment.contentRenderErrorMessage(error)\<close> is itself a \<^verbatim>\<open>TypeError\<close> when the
  injected value is no fragment.
\<close>

definition catchRenderFailure :: "entry \<Rightarrow> bool \<Rightarrow> error \<Rightarrow> error + jsval" where
  "catchRenderFailure injectedFragment isRequired' error =
     (if instanceofFragmentRenderError error \<and> \<not> isRequired' then
        (case injectedFragment of
           Instance f \<Rightarrow> Inr (js_or (contentRenderErrorMessage f (JErr error)) (JStr []))
         | Inherited n \<Rightarrow>
             Inl (TypeError ''injectedFragment.contentRenderErrorMessage is not a function'')
         | Undefined \<Rightarrow>
             Inl (TypeError ''Cannot read property contentRenderErrorMessage of undefined''))
      else Inl error)"

text \<open>\<^verbatim>\<open>_renderFragment\<close>: the \<^verbatim>\<open>try\<close> block and its \<^verbatim>\<open>catch\<close>.\<close>

definition renderFragment ::
  "('c, 's) Renderer \<Rightarrow> (jsval \<Rightarrow> nat \<Rightarrow> error + jsval) \<Rightarrow> nat \<Rightarrow> entry \<Rightarrow> jsval \<Rightarrow> bool
     \<Rightarrow> string list \<Rightarrow> string option \<Rightarrow> error + jsval" where
  "renderFragment R renderRecursive currentDepth injectedFragment fragmentContent isRequired'
       requiredSources' repeatedDataName =
     (case renderFragmentTry R renderRecursive currentDepth fragmentContent requiredSources'
             repeatedDataName of
        Inr rendered \<Rightarrow> Inr rendered
      | Inl error \<Rightarrow> catchRenderFailure injectedFragment isRequired' error)"

text \<open>
  \<^verbatim>\<open>_renderFragment\<close> when it is given \<^verbatim>\<open>undefined\<close> for the required sources: the
  \<^verbatim>\<open>try\<close> block fails at the first use of them, \<^verbatim>\<open>requiredSources.includes\<close> or
  \<^verbatim>\<open>requiredSources.map\<close>, unless the test of the repeat root has failed before.
\<close>

definition renderFragmentNoSources ::
  "('c, 's) Renderer \<Rightarrow> entry \<Rightarrow> bool \<Rightarrow> string option \<Rightarrow> error + jsval" where
  "renderFragmentNoSources R injectedFragment isRequired' repeatedDataName =
     catchRenderFailure injectedFragment isRequired'
       (case truthyName repeatedDataName of
          Some path \<Rightarrow>
            if \<not> hasFragment (manager R) (firstSegment path)
            then FragmentRenderError (InvalidRepeatSource path)
            else TypeError ''Cannot read property includes of undefined''
        | None \<Rightarrow> TypeError ''Cannot read property map of undefined'')"

text \<open>
  \<^verbatim>\<open>_boundFragmentRender\<close>. In \<^verbatim>\<open>requiredSources || toInject.requiredData\<close> the left operand
  is \<open>None\<close> for \<^verbatim>\<open>undefined\<close> and \<open>Some names\<close> for an array, which is truthy even when it is
  empty. Reading a property of \<^verbatim>\<open>undefined\<close> is a \<^verbatim>\<open>TypeError\<close>.
\<close>

definition boundFragmentRender ::
  "('c, 's) Renderer \<Rightarrow> (jsval \<Rightarrow> nat \<Rightarrow> error + jsval) \<Rightarrow> nat \<Rightarrow> entry \<Rightarrow> bool
     \<Rightarrow> string list option \<Rightarrow> string option \<Rightarrow> nat \<Rightarrow> nat \<Rightarrow> error + nat \<times> nat \<times> jsval" where
  "boundFragmentRender R renderRecursive currentDepth toInject isRequired' requiredSources'
       repeatedDataName matchIndex lastIndex' =
     (case await R (fetchFragmentBody (manager R) toInject None) of
        Inl e \<Rightarrow> Inl e
      | Inr content \<Rightarrow>
          (case toInject of
             Undefined \<Rightarrow> Inl (TypeError ''Cannot read property isRequired of undefined'')
           | _ \<Rightarrow>
               (case (case (case requiredSources' of
                              Some names \<Rightarrow> Some names
                            | None \<Rightarrow> requiredDataOf toInject) of
                        Some names \<Rightarrow>
                          renderFragment R renderRecursive currentDepth toInject content
                            (isRequiredOf toInject \<or> isRequired') names repeatedDataName
                      | None \<Rightarrow>
                          renderFragmentNoSources R toInject
                            (isRequiredOf toInject \<or> isRequired') repeatedDataName) of
                  Inl e \<Rightarrow> Inl e
                | Inr rendered \<Rightarrow> Inr (matchIndex, lastIndex', rendered))))"

lemma renderFragmentTry_ext:
  assumes "\<And>x. rr x (d + 1) = rr' x (d + 1)"
  shows "renderFragmentTry R rr d = renderFragmentTry R rr' d"
  unfolding renderFragmentTry_def renderFragmentPart_ext [of rr d rr', OF assms] ..

lemma renderFragment_ext:
  assumes "\<And>x. rr x (d + 1) = rr' x (d + 1)"
  shows "renderFragment R rr d = renderFragment R rr' d"
  unfolding renderFragment_def renderFragmentTry_ext [of rr d rr', OF assms] ..

lemma boundFragmentRender_ext:
  assumes "\<And>x. rr x (d + 1) = rr' x (d + 1)"
  shows "boundFragmentRender R rr d = boundFragmentRender R rr' d"
  unfolding boundFragmentRender_def renderFragment_ext [of rr d rr', OF assms] ..

text \<open>
  The choice of the template in the loop of \<^verbatim>\<open>renderRecursive\<close>: the named fragment, a
  fragment built around the embedded template, or an error.
\<close>

definition resolveTemplate ::
  "('c, 's) Renderer \<Rightarrow> string option \<Rightarrow> bool \<Rightarrow> bool \<Rightarrow> string \<Rightarrow> error + entry" where
  "resolveTemplate R templateNameToInject containsTemplate specifiedRequired embedded =
     (case truthyName templateNameToInject of
        Some name \<Rightarrow>
          (if \<not> hasFragment (manager R) name then Inl (UnknownFragmentReference name)
           else Inr (fragment (manager R) name))
      | None \<Rightarrow>
          if containsTemplate then
            Inr (Instance (html (noOptions\<lparr>cfg_required := JBool specifiedRequired,
                                             cfg_data := JStr embedded\<rparr>)))
          else Inl MissingTemplateSpecification)"

lemma startsWith_length: "startsWith p s \<Longrightarrow> length p \<le> length s"
  by (induction p s rule: startsWith.induct) (auto split: if_splits)

lemma length_closeTag: "length closeTag = 18"
  by (simp add: closeTag_def)

lemma length_openTag: "length openTag = 17"
  by (simp add: openTag_def)

lemma matchClose_bound: "matchClose s = Some (e, n) \<Longrightarrow> 0 < n \<and> n \<le> length s"
proof (induction s arbitrary: e n)
  case Nil
  then show ?case by simp
next
  case (Cons c cs)
  show ?case
  proof (cases "startsWith closeTag (c # cs)")
    case True
    from Cons.prems True have "n = length closeTag" by simp
    with startsWith_length [OF True] show ?thesis
      by (simp add: length_closeTag)
  next
    case False
    with Cons.prems obtain e' n' where "matchClose cs = Some (e', n')" "n = Suc n'"
      by (auto split: option.splits)
    with Cons.IH [of e' n'] show ?thesis by simp
  qed
qed

lemma matchInjectAt_bound:
  assumes "matchInjectAt s = Some (a, e, n)"
  shows "0 < n \<and> n \<le> length s"
proof -
  define rest where "rest = drop (length openTag) s"
  define attribs where "attribs = takeWhile (\<lambda>c. c \<noteq> CHR ''>'') rest"
  define after where "after = drop (length attribs) rest"
  from assms have sw: "startsWith openTag s"
    by (auto simp: matchInjectAt_def split: if_splits)
  with assms obtain gt bd k where after: "after = gt # bd"
    and mc: "matchClose bd = Some (e, k)"
    and n: "n = length openTag + length attribs + 1 + k"
    by (auto simp: matchInjectAt_def Let_def rest_def attribs_def after_def
        split: if_splits list.splits option.splits)
  from matchClose_bound [OF mc] have k: "k \<le> length bd" by simp
  have "length after = length rest - length attribs" by (simp add: after_def)
  moreover have "length rest = length s - length openTag" by (simp add: rest_def)
  moreover have "length after = Suc (length bd)" by (simp add: after)
  ultimately have "length openTag + length attribs + 1 + length bd \<le> length s"
    using startsWith_length [OF sw] by simp
  with n k show ?thesis by simp
qed

lemma searchInject_bound:
  "searchInject off s = Some m \<Longrightarrow>
     off \<le> index m \<and> index m < lastIndex m \<and> lastIndex m \<le> off + length s"
proof (induction s arbitrary: off)
  case Nil
  then show ?case by simp
next
  case (Cons c cs)
  show ?case
  proof (cases "matchInjectAt (c # cs)")
    case None
    with Cons.prems have "searchInject (Suc off) cs = Some m" by simp
    from Cons.IH [OF this] show ?thesis by simp
  next
    case (Some r)
    obtain a e n where r: "r = (a, e, n)" by (cases r)
    from matchInjectAt_bound [OF Some [unfolded r]] Cons.prems Some r show ?thesis
      by auto
  qed
qed

lemma execInject_bound:
  assumes "execInject s pos = Some m"
  shows "pos \<le> index m \<and> index m < lastIndex m \<and> lastIndex m \<le> length s"
proof -
  from assms have "drop pos s \<noteq> []"
    by (auto simp: execInject_def)
  then have "pos < length s" by simp
  with searchInject_bound [OF assms [unfolded execInject_def]] show ?thesis by simp
qed

text \<open>
  The \<^verbatim>\<open>while\<close> loop of \<^verbatim>\<open>renderRecursive\<close>. Its state is the \<^verbatim>\<open>lastIndex\<close> of the tag
  expression and the promises pushed so far. It returns the promises and, when the loop was
  left by \<^verbatim>\<open>return Promise.reject(...)\<close> or \<^verbatim>\<open>throw\<close>, the error.
\<close>

function scanLoop ::
  "('c, 's) Renderer \<Rightarrow> (jsval \<Rightarrow> nat \<Rightarrow> error + jsval) \<Rightarrow> nat \<Rightarrow> string \<Rightarrow> nat
     \<Rightarrow> (error + nat \<times> nat \<times> jsval) list
     \<Rightarrow> (error + nat \<times> nat \<times> jsval) list \<times> error option" where
  "scanLoop R renderRecursive currentDepth str pos fragmentRenderPromises =
     (case execInject str pos of
        None \<Rightarrow> (fragmentRenderPromises, None)
      | Some match \<Rightarrow>
          (case testInjectAttributes (commandAttribs match) of
             (containsTemplate, iterateOverDataName, templateNameToInject, specifiedRequired,
              requiredSources') \<Rightarrow>
               (case resolveTemplate R templateNameToInject containsTemplate specifiedRequired
                       (embeddedTemplate match) of
                  Inl e \<Rightarrow> (fragmentRenderPromises, Some e)
                | Inr template \<Rightarrow>
                    scanLoop R renderRecursive currentDepth str (lastIndex match)
                      (fragmentRenderPromises @
                       [boundFragmentRender R renderRecursive currentDepth template
                          specifiedRequired (Some requiredSources') iterateOverDataName
                          (index match) (lastIndex match)]))))"
  by pat_completeness auto
termination
proof (relation "measure (\<lambda>(R, rr, d, str, pos, ps). length str - pos)")
  show "wf (measure (\<lambda>(R, rr, d, str, pos, ps). length str - pos))" by simp
next
  fix R :: "('c, 's) Renderer" and rr :: "jsval \<Rightarrow> nat \<Rightarrow> error + jsval" and d str pos
    and ps :: "(error + nat \<times> nat \<times> jsval) list" and m x y xa ya xb yb xc yc xd
  assume "execInject str pos = Some m"
  from execInject_bound [OF this]
  show "((R, rr, d, str, lastIndex m,
          ps @ [boundFragmentRender R rr d xd xc (Some yc) xa (index m) (lastIndex m)]),
         (R, rr, d, str, pos, ps)) \<in> measure (\<lambda>(R, rr, d, str, pos, ps). length str - pos)"
    by (simp, arith)
qed

declare scanLoop.simps [simp del]

lemma scanLoop_ext:
  "(\<And>x. rr x (d + 1) = rr' x (d + 1)) \<Longrightarrow>
     scanLoop R rr d str pos ps = scanLoop R rr' d str pos ps"
proof (induction R rr d str pos ps rule: scanLoop.induct)
  case (1 R rr d str pos ps)
  from "1.prems" have b: "boundFragmentRender R rr d = boundFragmentRender R rr' d"
    by (rule boundFragmentRender_ext)
  show ?case
    unfolding scanLoop.simps [of R rr d str pos ps] scanLoop.simps [of R rr' d str pos ps]
    using "1.IH" "1.prems"
    by (auto split: option.splits prod.splits sum.splits simp: b)
qed

lemma scanLoop_cong [fundef_cong]:
  assumes "R = R'" "d = d'" "str = str'" "pos = pos'" "ps = ps'"
    and "\<And>x. rr x (d' + 1) = rr' x (d' + 1)"
  shows "scanLoop R rr d str pos ps = scanLoop R' rr' d' str' pos' ps'"
  using assms scanLoop_ext [of rr d' rr' R' str' pos' ps'] by simp

text \<open>
  \<^verbatim>\<open>renderRecursive\<close>. The expression is matched against the body converted to a string;
  the recursion is through \<^verbatim>\<open>_renderFragmentPart\<close>, one level deeper each time.
\<close>

function renderRecursive :: "('c, 's) Renderer \<Rightarrow> jsval \<Rightarrow> nat \<Rightarrow> error + jsval" where
  "renderRecursive R fragmentBody' currentDepth =
     (if currentDepth > MAX_DEPTH then Inr fragmentBody'
      else if fragmentBody' = JUndefined then Inl EmptyBody
      else
        (case scanLoop R (renderRecursive R) currentDepth (toString fragmentBody') 0 [] of
           (fragmentRenderPromises, Some e) \<Rightarrow> Inl e
         | (fragmentRenderPromises, None) \<Rightarrow>
             (case promiseAll fragmentRenderPromises of
                Inl e \<Rightarrow> Inl e
              | Inr renderedContent \<Rightarrow> injectReplacements fragmentBody' renderedContent)))"
  by pat_completeness auto
termination
  by (relation "measure (\<lambda>(R, b, d). Suc MAX_DEPTH - d)") auto

declare renderRecursive.simps [simp del]

section \<open>The entry point\<close>

text \<open>
  \<^verbatim>\<open>render(route, fragmentFetcher, context)\<close>. The two fetches of the base fragment are
  awaited one after the other, so the fetcher's state is threaded through them; the state
  returned is the one the fetcher is in when the recursive rendering starts, or when a base
  fetch failed.
\<close>

definition render ::
  "Engine \<Rightarrow> Route \<Rightarrow> ('c, 's) fetcher \<Rightarrow> 'c \<Rightarrow> 's \<Rightarrow> (error + FragmentBody) \<times> 's" where
  "render E route fragmentFetcher context s =
     (let manager' = newFragmentManager route fragmentFetcher context
      in case baseBody manager' None s of
           (Inl e, s1) \<Rightarrow> (Inl e, s1)
         | (Inr baseBody', s1) \<Rightarrow>
             (case baseContentType manager' None s1 of
                (Inl e, s2) \<Rightarrow> (Inl e, s2)
              | (Inr contentType', s2) \<Rightarrow>
                  (case renderRecursive \<lparr>engine = E, manager = manager', fstate = s2\<rparr> baseBody' 1 of
                     Inl e \<Rightarrow> (Inl e, s2)
                   | Inr body' \<Rightarrow> (Inr (newFragmentBody body' contentType'), s2))))"

section \<open>Collaborators and routes for the examples\<close>

text \<open>
  A fetcher in the manner of the test suite's \<^verbatim>\<open>localDataFetcher\<close>: it resolves to
  \<^verbatim>\<open>new FragmentBody(fragment.localData)\<close>, and its state counts the calls made to it. A
  value inherited from \<^verbatim>\<open>Object.prototype\<close> has no local data: the body is \<^verbatim>\<open>undefined\<close>.
\<close>

definition localDataFetcher :: "(unit, nat) fetcher" where
  "localDataFetcher f context options n =
     (case f of
        Instance fr \<Rightarrow> (Inr (newFragmentBody (localData fr) JUndefined), Suc n)
      | Inherited name \<Rightarrow> (Inr (newFragmentBody JUndefined JUndefined), Suc n)
      | Undefined \<Rightarrow> (Inl (TypeError ''Cannot read property localData of undefined''), Suc n))"

text \<open>
  A \<^verbatim>\<open>getProperty\<close> for dotted paths of property names, and a template engine that returns
  its template as it is, which is what a template without directives evaluates to.
\<close>

fun getPath :: "jsval \<Rightarrow> string list \<Rightarrow> jsval" where
  "getPath v [] = v"
| "getPath (JObj ps) (k # ks) = (case map_of ps k of Some x \<Rightarrow> getPath x ks | None \<Rightarrow> JUndefined)"
| "getPath v (k # ks) = JUndefined"

definition plainEngine :: Engine where
  "plainEngine =
     \<lparr>dotTemplate = (\<lambda>str data. Inr (toString str)),
      getProperty = (\<lambda>obj path. getPath (JObj obj) (split CHR ''.'' path))\<rparr>"

text \<open>An HTML fragment with inline data, and a route whose fragment injects itself.\<close>

definition htmlData :: "string \<Rightarrow> Fragment" where
  "htmlData s = html (noOptions\<lparr>cfg_data := JStr s\<rparr>)"

definition loopRoute :: Route where
  "loopRoute =
     \<lparr>baseTemplate = base (noOptions\<lparr>cfg_data := JStr ''<fragment-inject fragment-name=\"loop\"></fragment-inject>''\<rparr>),
      fragments = [''loop'' \<mapsto> htmlData ''x<fragment-inject fragment-name=\"loop\"></fragment-inject>'']\<rparr>"

text \<open>The renderer \<^verbatim>\<open>render\<close> builds for a route, after the two fetches of the base fragment.\<close>

definition rendererOf :: "Engine \<Rightarrow> Route \<Rightarrow> (unit, nat) Renderer" where
  "rendererOf E route = \<lparr>engine = E, manager = newFragmentManager route localDataFetcher (), fstate = 2\<rparr>"

text \<open>
  A fetcher that resolves to the same body whatever it is handed, and the fetcher of the test
  "failed fetch", which always rejects. Both count their calls.
\<close>

definition constantFetcher :: "(unit, nat) fetcher" where
  "constantFetcher f context options n = (Inr (newFragmentBody (JStr ''fetched'') JUndefined), Suc n)"

definition failingFetcher :: "(unit, nat) fetcher" where
  "failingFetcher f context options n = (Inl (ExternalError ''Failed to fetch''), Suc n)"

text \<open>The route of the specification's example: the base template injects \<open>greeter\<close>.\<close>

definition greeterRoute :: Route where
  "greeterRoute =
     \<lparr>baseTemplate = base (noOptions\<lparr>cfg_data := JStr ''<fragment-inject fragment-name=\"greeter\" template></fragment-inject>''\<rparr>),
      fragments = [''greeter'' \<mapsto> htmlData ''Hello'']\<rparr>"

text \<open>
  A template engine that makes the data it is given visible: it appends the names of the
  properties of the data to the template.
\<close>

definition keysEngine :: Engine where
  "keysEngine =
     \<lparr>dotTemplate =
        (\<lambda>str data.
           Inr (toString str @ ''['' @
                (case data of JObj ps \<Rightarrow> intercalate '','' (map fst ps) | _ \<Rightarrow> []) @ '']'')),
      getProperty = (\<lambda>obj path. getPath (JObj obj) (split CHR ''.'' path))\<rparr>"

text \<open>
  A fragment \<open>card\<close> that declares the data it requires, injected once without a
  \<^verbatim>\<open>models\<close> attribute and once with one.
\<close>

definition cardFragments :: "string \<rightharpoonup> Fragment" where
  "cardFragments =
     [''card'' \<mapsto> html (noOptions\<lparr>cfg_data := JStr ''Card'', cfg_requiredData := Some [''user'']\<rparr>),
      ''user'' \<mapsto> json (noOptions\<lparr>cfg_data := JObj [(''name'', JStr ''Ann'')]\<rparr>)]"

definition cardRoute :: Route where
  "cardRoute =
     \<lparr>baseTemplate = base (noOptions\<lparr>cfg_data := JStr ''<fragment-inject fragment-name=\"card\"></fragment-inject>''\<rparr>),
      fragments = cardFragments\<rparr>"

definition cardModelsRoute :: Route where
  "cardModelsRoute =
     \<lparr>baseTemplate = base (noOptions\<lparr>cfg_data := JStr ''<fragment-inject fragment-name=\"card\" models=\"user\"></fragment-inject>''\<rparr>),
      fragments = cardFragments\<rparr>"

text \<open>
  A fetcher that captures a failure when it is told never to handle the error: it then
  resolves to a body that is the error. Otherwise it resolves to the local data.
\<close>

definition capturingFetcher :: "(unit, nat) fetcher" where
  "capturingFetcher f context options n =
     (if options = Some True
      then (Inr (newFragmentBody (JErr (ExternalError ''service down'')) JUndefined), Suc n)
      else localDataFetcher f context options n)"

definition itemsRoute :: Route where
  "itemsRoute =
     \<lparr>baseTemplate = base (noOptions\<lparr>cfg_data := JStr ''A<fragment-inject template fragment-repeat=\"items\" models=\"items\">item</fragment-inject>B''\<rparr>),
      fragments = [''items'' \<mapsto> json (noOptions\<lparr>cfg_data := JArr [JStr ''a'', JStr ''b'']\<rparr>)]\<rparr>"

text \<open>
  A repeat over a source that is no fragment of the route, in an optional tag and in a
  required one.
\<close>

definition ghostRepeatRoute :: Route where
  "ghostRepeatRoute =
     \<lparr>baseTemplate = base (noOptions\<lparr>cfg_data := JStr ''A<fragment-inject template fragment-repeat=\"ghost.list\" models=\"ghost\">x</fragment-inject>B''\<rparr>),
      fragments = Map.empty\<rparr>"

text \<open>
  A template engine that makes the binding of \<^verbatim>\<open>current\<close> visible: it appends the value of
  that property of the data to the template.
\<close>

definition currentEngine :: Engine where
  "currentEngine =
     \<lparr>dotTemplate =
        (\<lambda>str data. Inr (toString str @ ''='' @ toString (getPath data [''current'']) @ '';'')),
      getProperty = (\<lambda>obj path. getPath (JObj obj) (split CHR ''.'' path))\<rparr>"

text \<open>A repeat over a fragment that is itself named \<open>current\<close>.\<close>

definition currentRoute :: Route where
  "currentRoute =
     \<lparr>baseTemplate = base (noOptions\<lparr>cfg_data := JStr ''<fragment-inject template fragment-repeat=\"current\" models=\"current\">item</fragment-inject>''\<rparr>),
      fragments = [''current'' \<mapsto> json (noOptions\<lparr>cfg_data := JArr [JStr ''a'', JStr ''b'']\<rparr>)]\<rparr>"

text \<open>
  An optional fragment \<open>outer\<close> whose body injects a fragment that the route does not have,
  and a base body that injects \<open>toString\<close>, a name the route does not define and every
  JavaScript object inherits.
\<close>

definition ghostNestedRoute :: Route where
  "ghostNestedRoute =
     \<lparr>baseTemplate = base (noOptions\<lparr>cfg_data := JStr ''A<fragment-inject fragment-name=\"outer\"></fragment-inject>B''\<rparr>),
      fragments = [''outer'' \<mapsto> htmlData ''<fragment-inject fragment-name=\"ghost\" required></fragment-inject>'']\<rparr>"

definition toStringRoute :: Route where
  "toStringRoute =
     \<lparr>baseTemplate = base (noOptions\<lparr>cfg_data := JStr ''A<fragment-inject fragment-name=\"toString\"></fragment-inject>B''\<rparr>),
      fragments = [''greeter'' \<mapsto> htmlData ''Hello'']\<rparr>"

text \<open>
  A template engine for one directive: the template \<^verbatim>\<open>[[=model.user.name]]\<close> evaluates to the
  name of the user in the data, and throws when the data has no user; any other template is
  returned as it is. The route's optional fragment \<open>outer\<close> embeds that template in a
  required tag that names no data.
\<close>

definition fragileEngine :: Engine where
  "fragileEngine =
     \<lparr>dotTemplate =
        (\<lambda>str data.
           if toString str = ''[[=model.user.name]]'' then
             (case getPath data [''user''] of
                JObj user \<Rightarrow> Inr (toString (getPath (JObj user) [''name'']))
              | _ \<Rightarrow> Inl (TypeError ''Cannot read property name of undefined''))
           else Inr (toString str)),
      getProperty = (\<lambda>obj path. getPath (JObj obj) (split CHR ''.'' path))\<rparr>"

definition requiredNestedRoute :: Route where
  "requiredNestedRoute =
     \<lparr>baseTemplate = base (noOptions\<lparr>cfg_data := JStr ''A<fragment-inject fragment-name=\"outer\"></fragment-inject>B''\<rparr>),
      fragments = [''outer'' \<mapsto> htmlData ''<fragment-inject template required>[[=model.user.name]]</fragment-inject>'']\<rparr>"

text \<open>The same required tag in the base body.\<close>

definition requiredBaseRoute :: Route where
  "requiredBaseRoute =
     \<lparr>baseTemplate = base (noOptions\<lparr>cfg_data := JStr ''A<fragment-inject template required>[[=model.user.name]]</fragment-inject>B''\<rparr>),
      fragments = Map.empty\<rparr>"

section \<open>Auxiliary facts\<close>

lemma truthy_contentRenderErrorMessage: "truthy (contentRenderErrorMessage f e)"
  by (simp add: contentRenderErrorMessage_def js_or_def Let_def)

lemma js_or_contentRenderErrorMessage:
  "js_or (contentRenderErrorMessage f e) (JStr []) = contentRenderErrorMessage f e"
  by (simp add: js_or_def truthy_contentRenderErrorMessage)

lemma promiseAll_map_Inr: "promiseAll (map Inr outs) = Inr outs"
  by (induction outs) simp_all

lemma map_of_foldl_update:
  "map_of (foldl (\<lambda>acc (k, v). AList.update k v acc) target source) =
     map_of target ++ map_of (rev source)"
proof (induction source arbitrary: target)
  case Nil
  then show ?case by simp
next
  case (Cons p source)
  obtain k v where p: "p = (k, v)" by (cases p)
  have "map_of (foldl (\<lambda>acc (k, v). AList.update k v acc) target (p # source)) =
      map_of (AList.update k v target) ++ map_of (rev source)"
    unfolding p foldl_Cons prod.case by (rule Cons.IH)
  also have "map_of (AList.update k v target) = (map_of target)(k \<mapsto> v)"
    by (rule update_conv')
  also have "(map_of target)(k \<mapsto> v) ++ map_of (rev source) =
      map_of target ++ map_of (rev (p # source))"
    by (rule ext) (auto simp: p map_add_def split: option.splits)
  finally show ?case .
qed

lemma distinct_foldl_update:
  "distinct (map fst target) \<Longrightarrow>
     distinct (map fst (foldl (\<lambda>acc (k, v). AList.update k v acc) target source))"
  by (induction source arbitrary: target) (auto simp: distinct_update)

lemma promiseProps_keys: "promiseProps ps = Inr vs \<Longrightarrow> map fst vs = map fst ps"
  by (induction ps arbitrary: vs rule: promiseProps.induct) (auto split: sum.splits)

lemma fetchSources_distinct:
  assumes "fetchSources R root names = Inr sources"
  shows "distinct (map fst sources)"
proof -
  from assms obtain pairs where "promiseProps (dataObject pairs) = Inr sources"
    by (auto simp: fetchSources_def split: sum.splits)
  from promiseProps_keys [OF this] show ?thesis
    by (simp add: dataObject_def distinct_foldl_update)
qed

lemma map_of_rev_distinct: "distinct (map fst xs) \<Longrightarrow> map_of (rev xs) = map_of xs"
  by (rule ext) (metis distinct_rev map_of_eq_Some_iff map_of_eq_None_iff option.exhaust rev_map set_rev)

lemma objectAssign_lookup:
  "distinct (map fst source) \<Longrightarrow>
     map_of (objectAssign target source) = map_of target ++ map_of source"
  by (simp add: objectAssign_def map_of_foldl_update map_of_rev_distinct)

lemma case_no_captured_error:
  "\<forall>e. m \<noteq> Some (JErr e) \<Longrightarrow> (case m of Some (JErr e) \<Rightarrow> A e | _ \<Rightarrow> B) = B"
  by (auto split: option.splits jsval.splits)

lemma renderFragmentTry_repeat:
  assumes "truthyName repeatedDataName = Some path"
    and "hasFragment (manager R) (firstSegment path)"
    and "firstSegment path \<in> set requiredSources'"
    and "fetchSources R (Some (firstSegment path)) requiredSources' = Inr sources"
    and "\<forall>e. map_of sources (firstSegment path) \<noteq> Some (JErr e)"
  shows "renderFragmentTry R rr d content requiredSources' repeatedDataName =
     (if truthy (getProperty (engine R) sources path) \<and>
         truthy (lengthOf (getProperty (engine R) sources path))
      then (case getProperty (engine R) sources path of
              JArr ds \<Rightarrow>
                (case promiseAll
                        (map (\<lambda>x. renderFragmentPart R rr d content
                                    (JObj (objectAssign [(''current'', x)] sources))) ds) of
                   Inl e \<Rightarrow> Inl e
                 | Inr data \<Rightarrow> Inr (JStr (concat data)))
            | _ \<Rightarrow> Inl (TypeError ''dataBody.map is not a function''))
      else Inr (JStr []))"
  using assms(1-4)
  by (simp add: renderFragmentTry_def Let_def case_no_captured_error [OF assms(5)])

section \<open>The claims\<close>

subsection \<open>Claim C1\<close>

text \<open>
  Claim C1 says that a tag without a \<^verbatim>\<open>models\<close> attribute takes its data dependencies from
  the \<^verbatim>\<open>requiredData\<close> the target fragment declares. The code writes this fallback,
  \<^verbatim>\<open>requiredSources || toInject.requiredData\<close>, but \<^verbatim>\<open>_testInjectAttributes\<close> returns the empty
  array for a missing attribute, and an empty array is truthy: the fallback is never taken.
  The fragment \<open>card\<close> declares \<open>user\<close>; injected without \<^verbatim>\<open>models\<close> it is rendered with no
  data at all, and with \<^verbatim>\<open>models="user"\<close> with the data \<open>user\<close>.
\<close>

theorem declared_required_data_not_used:
  "map_option requiredData (fragments cardRoute ''card'') = Some [''user''] \<and>
   testInjectAttributes ''fragment-name=\"card\"'' = (False, None, Some ''card'', False, []) \<and>
   fst (render keysEngine cardRoute localDataFetcher () 0) =
     Inr \<lparr>body = JStr ''Card[]'', contentType = JStr ''text/html''\<rparr> \<and>
   fst (render keysEngine cardModelsRoute localDataFetcher () 0) =
     Inr \<lparr>body = JStr ''Card[user]'', contentType = JStr ''text/html''\<rparr>"
  by code_simp

subsection \<open>Claim C2\<close>

text \<open>
  Claim C2 says that a failure raised while the template of an effectively required tag is
  rendered or evaluated propagates and fails the whole render call, with no partial
  output; the source says the same of the \<^verbatim>\<open>required\<close> attribute ("This fragment is
  required, if it cant render whole Route fails"). A required tag in the base body does
  fail the render. But the call of \<^verbatim>\<open>renderRecursive\<close> on the body of another fragment is
  awaited inside the \<^verbatim>\<open>try\<close> of \<^verbatim>\<open>_renderFragmentPart\<close>, whose \<^verbatim>\<open>catch\<close> wraps every error,
  and the enclosing tag then applies its own policy. Here the optional fragment \<open>outer\<close>
  holds a required tag whose template makes the engine throw: the call on the body of
  \<open>outer\<close> fails, and yet the render succeeds, with the message of \<open>outer\<close> in the output.
\<close>

theorem required_failure_swallowed_in_optional_fragment:
  "testInjectAttributes ''template required'' = (True, None, None, True, []) \<and>
   fst (render fragileEngine requiredBaseRoute localDataFetcher () 0) =
     Inl (FragmentRenderError (TypeError ''Cannot read property name of undefined'')) \<and>
   renderRecursive (rendererOf fragileEngine requiredNestedRoute)
     (JStr ''<fragment-inject template required>[[=model.user.name]]</fragment-inject>'') 2 =
     Inl (FragmentRenderError (TypeError ''Cannot read property name of undefined'')) \<and>
   fst (render fragileEngine requiredNestedRoute localDataFetcher () 0) =
     Inr \<lparr>body = JStr ''A<p>Sorry this content could not be rendered. Please try again.</p>B'',
          contentType = JStr ''text/html''\<rparr>"
  by code_simp

subsection \<open>Claim C3\<close>

text \<open>
  Claim C3 says that a tag naming a fragment absent from the manager's registry fails the
  entire render with \<^verbatim>\<open>UnknownFragmentReference\<close>. The test the code makes,
  \<^verbatim>\<open>!!this._sourceFragments[name]\<close>, is also true for a name the route does not define but
  the table inherits from \<^verbatim>\<open>Object.prototype\<close>: for \<open>toString\<close> the tag is taken as known,
  the fetcher is handed the inherited function, and with the fetcher of local data the render
  ends in a \<^verbatim>\<open>TypeError\<close>, not in \<^verbatim>\<open>UnknownFragmentReference\<close>. For a name the table does
  not have at all, the call of \<^verbatim>\<open>renderRecursive\<close> that scans the tag does fail with
  \<^verbatim>\<open>UnknownFragmentReference\<close>; but when that call expands the body of an optional
  fragment, \<^verbatim>\<open>_renderFragmentPart\<close> wraps the failure and the enclosing tag recovers from it,
  so the render succeeds.
\<close>

theorem unknown_fragment_not_always_fatal:
  "map_option cfg_data (fragments toStringRoute ''toString'') = None \<and>
   hasFragment (manager (rendererOf plainEngine toStringRoute)) ''toString'' = True \<and>
   fst (render plainEngine toStringRoute localDataFetcher () 0) =
     Inl (TypeError ''injectedFragment.contentRenderErrorMessage is not a function'') \<and>
   hasFragment (manager (rendererOf plainEngine ghostNestedRoute)) ''ghost'' = False \<and>
   renderRecursive (rendererOf plainEngine ghostNestedRoute)
     (JStr ''<fragment-inject fragment-name=\"ghost\" required></fragment-inject>'') 2 =
     Inl (UnknownFragmentReference ''ghost'') \<and>
   fst (render plainEngine ghostNestedRoute localDataFetcher () 0) =
     Inr \<lparr>body = JStr ''A<p>Sorry this content could not be rendered. Please try again.</p>B'',
          contentType = JStr ''text/html''\<rparr>"
  by code_simp

subsection \<open>Claim C4\<close>



subsection \<open>Claim C5\<close>

text \<open>
  Claim C5 says that each copy of a repeated template is rendered against the dependency
  mapping extended with a \<^verbatim>\<open>current\<close> binding to the element. The data object is built by
  \<^verbatim>\<open>Object.assign({current: d}, sources)\<close>, which writes the sources over the binding: when a
  dependency is itself named \<open>current\<close>, every copy sees the body of that dependency, here
  the whole list, and not the element.
\<close>

theorem repeat_rendering_counterexample:
  "fst (render currentEngine currentRoute localDataFetcher () 0) =
     Inr \<lparr>body = JStr ''item=a,b;item=a,b;'', contentType = JStr ''text/html''\<rparr>"
  by code_simp

text \<open>
  Claim C5, amended. Take an injection tag with a \<^verbatim>\<open>fragment-repeat\<close> path whose root is a
  known fragment and a dependency, whose dependencies were all fetched, and whose root was
  not captured as a failure. If resolving the path against the fetched mapping yields an
  absent value or an empty sequence, the replacement is the empty string, with no error. If
  it yields a sequence of \<open>n\<close> elements and each copy renders, the replacement is the
  concatenation of the \<open>n\<close> copies in list order. Each copy is rendered by expanding the
  tags of the template one level deeper and then evaluating the result against the data
  object \<^verbatim>\<open>Object.assign({current: element}, sources)\<close>: the full dependency mapping, and
  \<^verbatim>\<open>current\<close> bound to the element unless a dependency is named \<open>current\<close>, which then keeps
  its fetched body.
\<close>

theorem repeat_rendering:
  assumes "truthyName repeatedDataName = Some path"
    and "hasFragment (manager R) (firstSegment path)"
    and "firstSegment path \<in> set requiredSources'"
    and "fetchSources R (Some (firstSegment path)) requiredSources' = Inr sources"
    and "\<forall>e. map_of sources (firstSegment path) \<noteq> Some (JErr e)"
  shows
    "(getProperty (engine R) sources path \<in> {JUndefined, JNull, JArr []} \<longrightarrow>
        renderFragment R rr d injectedFragment content req requiredSources' repeatedDataName =
          Inr (JStr [])) \<and>
     (\<forall>ds outs.
        getProperty (engine R) sources path = JArr ds \<and> ds \<noteq> [] \<and>
        map (\<lambda>x. renderFragmentPart R rr d content
                    (JObj (objectAssign [(''current'', x)] sources))) ds = map Inr outs \<longrightarrow>
        renderFragment R rr d injectedFragment content req requiredSources' repeatedDataName =
          Inr (JStr (concat outs))) \<and>
     (\<forall>x. map_of (objectAssign [(''current'', x)] sources) =
            [''current'' \<mapsto> x] ++ map_of sources) \<and>
     (\<forall>data.
        renderFragmentPart R rr d content data =
          (case rr content (d + 1) of
             Inl e \<Rightarrow> Inl (FragmentRenderError e)
           | Inr str \<Rightarrow>
               (case dotTemplate (engine R) str data of
                  Inl e \<Rightarrow> Inl (FragmentRenderError e)
                | Inr out \<Rightarrow> Inr out)))"
proof (intro conjI allI impI)
  assume "getProperty (engine R) sources path \<in> {JUndefined, JNull, JArr []}"
  then
  show "renderFragment R rr d injectedFragment content req requiredSources' repeatedDataName =
      Inr (JStr [])"
    by (auto simp: renderFragment_def renderFragmentTry_repeat [OF assms])
next
  fix ds outs
  assume a: "getProperty (engine R) sources path = JArr ds \<and> ds \<noteq> [] \<and>
      map (\<lambda>x. renderFragmentPart R rr d content
                  (JObj (objectAssign [(''current'', x)] sources))) ds = map Inr outs"
  then have "promiseAll (map (\<lambda>x. renderFragmentPart R rr d content
                  (JObj (objectAssign [(''current'', x)] sources))) ds) = Inr outs"
    by (simp add: promiseAll_map_Inr)
  with a
  show "renderFragment R rr d injectedFragment content req requiredSources' repeatedDataName =
      Inr (JStr (concat outs))"
    by (simp add: renderFragment_def renderFragmentTry_repeat [OF assms])
next
  fix x
  from fetchSources_distinct [OF assms(4)]
  show "map_of (objectAssign [(''current'', x)] sources) = [''current'' \<mapsto> x] ++ map_of sources"
    by (simp add: objectAssign_lookup)
next
  fix data
  show "renderFragmentPart R rr d content data =
      (case rr content (d + 1) of
         Inl e \<Rightarrow> Inl (FragmentRenderError e)
       | Inr str \<Rightarrow>
           (case dotTemplate (engine R) str data of
              Inl e \<Rightarrow> Inl (FragmentRenderError e)
            | Inr out \<Rightarrow> Inr out))"
    by (simp add: renderFragmentPart_def)
qed

text \<open>
  An instance: a repeat over the two elements of the fragment \<open>items\<close>, where no dependency
  is named \<open>current\<close>, gives one copy for each element, in order.
\<close>

theorem repeat_rendering_witness:
  "renderFragment (rendererOf currentEngine itemsRoute)
     (renderRecursive (rendererOf currentEngine itemsRoute)) 1
     (Instance (html (noOptions\<lparr>cfg_required := JBool False, cfg_data := JStr ''item''\<rparr>)))
     (JStr ''item'') False [''items''] (Some ''items'') =
     Inr (JStr ''item=a;item=b;'')"
proof -
  let ?R = "rendererOf currentEngine itemsRoute"
  let ?sources = "[(''items'', JArr [JStr ''a'', JStr ''b''])]"
  have h1: "truthyName (Some ''items'') = Some ''items''" by simp
  have h2: "hasFragment (manager ?R) (firstSegment ''items'')" by code_simp
  have h3: "firstSegment ''items'' \<in> set [''items'']" by code_simp
  have h4: "fetchSources ?R (Some (firstSegment ''items'')) [''items''] = Inr ?sources"
    by code_simp
  have h5: "\<forall>e. map_of ?sources (firstSegment ''items'') \<noteq> Some (JErr e)" by simp
  have g: "getProperty (engine ?R) ?sources ''items'' = JArr [JStr ''a'', JStr ''b'']"
    by code_simp
  have m: "map (\<lambda>x. renderFragmentPart ?R (renderRecursive ?R) 1 (JStr ''item'')
                    (JObj (objectAssign [(''current'', x)] ?sources))) [JStr ''a'', JStr ''b''] =
      map Inr [''item=a;'', ''item=b;'']"
    by code_simp
  have ne: "[JStr ''a'', JStr ''b''] \<noteq> []" by simp
  from repeat_rendering [OF h1 h2 h3 h4 h5, of "renderRecursive ?R" 1
      "Instance (html (noOptions\<lparr>cfg_required := JBool False, cfg_data := JStr ''item''\<rparr>))"
      "JStr ''item''" False]
  have step: "\<And>ds outs.
      getProperty (engine ?R) ?sources ''items'' = JArr ds \<and> ds \<noteq> [] \<and>
      map (\<lambda>x. renderFragmentPart ?R (renderRecursive ?R) 1 (JStr ''item'')
                  (JObj (objectAssign [(''current'', x)] ?sources))) ds = map Inr outs \<Longrightarrow>
      renderFragment ?R (renderRecursive ?R) 1
        (Instance (html (noOptions\<lparr>cfg_required := JBool False, cfg_data := JStr ''item''\<rparr>)))
        (JStr ''item'') False [''items''] (Some ''items'') = Inr (JStr (concat outs))"
    by blast
  from step [of "[JStr ''a'', JStr ''b'']" "[''item=a;'', ''item=b;'']"] g m ne
  have "renderFragment ?R (renderRecursive ?R) 1
        (Instance (html (noOptions\<lparr>cfg_required := JBool False, cfg_data := JStr ''item''\<rparr>)))
        (JStr ''item'') False [''items''] (Some ''items'') =
        Inr (JStr (concat [''item=a;'', ''item=b;'']))"
    by blast
  then show ?thesis by simp
qed

subsection \<open>Claim C6\<close>

text \<open>
  Claim C6 says that a repeat whose root fragment's fetch was captured as a failure is
  replaced by the body of that fragment's missing-content message. \<^verbatim>\<open>_renderFragment\<close>
  returns what \<^verbatim>\<open>contentMissingMessage\<close> returns, which is the object holding the body and
  the content type, not the body; put into the output, the object reads
  \<^verbatim>\<open>[object Object]\<close>.
\<close>

theorem missing_content_message_not_unwrapped:
  "map_option (\<lambda>f. contentMissingMessage f (JErr (ExternalError ''service down'')))
     (fragments itemsRoute ''items'') =
     Some (JObj [(''body'', JStr ''<p>Sorry this content could not be fetched. Please try again.</p>''),
                 (''contentType'', JStr ''application/json'')]) \<and>
   fst (render plainEngine itemsRoute capturingFetcher () 0) =
     Inr \<lparr>body = JStr ''A[object Object]B'', contentType = JStr ''text/html''\<rparr> \<and>
   fst (render plainEngine itemsRoute localDataFetcher () 0) =
     Inr \<lparr>body = JStr ''AitemitemB'', contentType = JStr ''text/html''\<rparr>"
  by code_simp

subsection \<open>Claim C7\<close>

text \<open>
  Claim C7 says that a repeat path whose root is not a dependency or not a known fragment
  fails the whole render with \<^verbatim>\<open>InvalidRepeatSource\<close>, whether the fragment is required or
  optional. The error is thrown as a \<^verbatim>\<open>FragmentRenderError\<close> inside the \<^verbatim>\<open>try\<close> block, so
  the \<^verbatim>\<open>catch\<close> of \<^verbatim>\<open>_renderFragment\<close> recovers from it for an optional fragment: the
  root \<open>ghost\<close> of the path is no fragment of the route, and the render succeeds, with the
  render error message in place of the tag.
\<close>

theorem invalid_repeat_source_counterexample:
  "testInjectAttributes ''template fragment-repeat=\"ghost.list\" models=\"ghost\"'' =
     (True, Some ''ghost.list'', None, False, [''ghost'']) \<and>
   hasFragment (manager (rendererOf plainEngine ghostRepeatRoute)) ''ghost'' = False \<and>
   fst (render plainEngine ghostRepeatRoute localDataFetcher () 0) =
     Inr \<lparr>body = JStr ''A<p>Sorry this content could not be rendered. Please try again.</p>B'',
          contentType = JStr ''text/html''\<rparr>"
  by code_simp

text \<open>
  Claim C7, amended. Take an injection tag whose target is a fragment (a fragment of the
  route or the fragment built around an embedded template) and whose \<^verbatim>\<open>fragment-repeat\<close>
  path has a root that is not among the effective data dependencies or fails the manager's
  test \<^verbatim>\<open>hasFragment\<close> (the root is neither a fragment of the route nor a name inherited from
  \<^verbatim>\<open>Object.prototype\<close>). The body of the target is fetched first, and a failure of that
  fetch is the failure of the tag. Once the body is fetched, the rendering of the tag fails
  with \<^verbatim>\<open>InvalidRepeatSource\<close> wrapped as a \<^verbatim>\<open>FragmentRenderError\<close>; when the tag is
  effectively required, that error is the result of the tag, and when it is optional, the
  tag is replaced by the target fragment's render error message.
\<close>

theorem invalid_repeat_source:
  assumes "truthyName repeatedDataName = Some path"
    and "\<not> hasFragment (manager R) (firstSegment path) \<or>
         firstSegment path \<notin> set (case requiredSources' of
                                      Some names \<Rightarrow> names
                                    | None \<Rightarrow> requiredData f)"
  shows "boundFragmentRender R rr d (Instance f) specifiedRequired requiredSources'
           repeatedDataName matchIndex lastIndex' =
     (case await R (fetchFragmentBody (manager R) (Instance f) None) of
        Inl e \<Rightarrow> Inl e
      | Inr content \<Rightarrow>
          if isRequired f \<or> specifiedRequired
          then Inl (FragmentRenderError (InvalidRepeatSource path))
          else Inr (matchIndex, lastIndex',
                    contentRenderErrorMessage f
                      (JErr (FragmentRenderError (InvalidRepeatSource path)))))"
proof -
  have "renderFragmentTry R rr d content
          (case requiredSources' of Some names \<Rightarrow> names | None \<Rightarrow> requiredData f)
          repeatedDataName = Inl (FragmentRenderError (InvalidRepeatSource path))" for content
    using assms by (auto simp: renderFragmentTry_def Let_def)
  then show ?thesis
    by (cases requiredSources')
       (simp_all add: boundFragmentRender_def renderFragment_def catchRenderFailure_def
          requiredDataOf_def isRequiredOf_def js_or_contentRenderErrorMessage
          split: sum.splits)
qed

text \<open>
  An instance: the tag of the counterexample with the attribute \<^verbatim>\<open>required\<close> fails, and
  without it is replaced by the default message.
\<close>

theorem invalid_repeat_source_witness:
  "boundFragmentRender (rendererOf plainEngine ghostRepeatRoute)
     (renderRecursive (rendererOf plainEngine ghostRepeatRoute)) 1
     (Instance (html (noOptions\<lparr>cfg_required := JBool True, cfg_data := JStr ''x''\<rparr>))) True
     (Some [''ghost'']) (Some ''ghost.list'') 1 91 =
     Inl (FragmentRenderError (InvalidRepeatSource ''ghost.list'')) \<and>
   boundFragmentRender (rendererOf plainEngine ghostRepeatRoute)
     (renderRecursive (rendererOf plainEngine ghostRepeatRoute)) 1
     (Instance (html (noOptions\<lparr>cfg_required := JBool False, cfg_data := JStr ''x''\<rparr>))) False
     (Some [''ghost'']) (Some ''ghost.list'') 1 91 =
     Inr (1, 91, JStr ''<p>Sorry this content could not be rendered. Please try again.</p>'')"
proof -
  let ?R = "rendererOf plainEngine ghostRepeatRoute"
  let ?t = "html (noOptions\<lparr>cfg_required := JBool True, cfg_data := JStr ''x''\<rparr>)"
  let ?u = "html (noOptions\<lparr>cfg_required := JBool False, cfg_data := JStr ''x''\<rparr>)"
  have h1: "truthyName (Some ''ghost.list'') = Some ''ghost.list''" by simp
  have g: "\<not> hasFragment (manager ?R) (firstSegment ''ghost.list'')" by code_simp
  then have h2: "\<not> hasFragment (manager ?R) (firstSegment ''ghost.list'') \<or>
      firstSegment ''ghost.list'' \<notin> set (case Some [''ghost''] of
                                      Some names \<Rightarrow> names
                                    | None \<Rightarrow> requiredData f)" for f
    by simp
  have f1: "await ?R (fetchFragmentBody (manager ?R) (Instance ?t) None) = Inr (JStr ''x'')"
    by code_simp
  have f2: "await ?R (fetchFragmentBody (manager ?R) (Instance ?u) None) = Inr (JStr ''x'')"
    by code_simp
  have r: "\<not> isRequired ?u" by (simp add: isRequired_def html_def noOptions_def)
  have m: "contentRenderErrorMessage ?u
      (JErr (FragmentRenderError (InvalidRepeatSource ''ghost.list''))) =
      JStr ''<p>Sorry this content could not be rendered. Please try again.</p>''"
    by (simp add: contentRenderErrorMessage_def resolveMessage_def js_or_def html_def
        noOptions_def)
  from invalid_repeat_source
         [where f = "?t" and rr = "renderRecursive ?R" and d = 1 and specifiedRequired = True
            and matchIndex = 1 and lastIndex' = 91, OF h1 h2]
       invalid_repeat_source
         [where f = "?u" and rr = "renderRecursive ?R" and d = 1 and specifiedRequired = False
            and matchIndex = 1 and lastIndex' = 91, OF h1 h2]
       f1 f2 r m
  show ?thesis by simp
qed

subsection \<open>Claim C8\<close>

text \<open>
  Claim C8 says that \<^verbatim>\<open>fragmentBody(name)\<close> fails with \<^verbatim>\<open>UnknownFragmentReference\<close> for a
  name absent from the route's fragment map, rather than invoking the fetcher. The manager
  makes no such test: for the absent name \<open>ghost\<close> the fetcher is called (its counter goes
  from 0 to 1) and its body is the result.
\<close>

theorem fragmentBody_absent_name_counterexample:
  "map_option cfg_data (fragments greeterRoute ''ghost'') = None \<and>
   fragmentBody (newFragmentManager greeterRoute constantFetcher ()) ''ghost'' None 0 =
     (Inr (JStr ''fetched''), 1)"
  by code_simp

text \<open>
  Claim C8, amended. For every name that is absent from the fragment map of the route (a
  route that does not itself define \<^verbatim>\<open>__proto__\<close>), \<^verbatim>\<open>fragmentBody(name)\<close> makes no test of
  existence: it invokes the fetcher with \<^verbatim>\<open>this._sourceFragments[name]\<close> in the place of the
  fragment, which is \<^verbatim>\<open>undefined\<close>, or, for a name the table inherits from
  \<^verbatim>\<open>Object.prototype\<close>, the inherited value; and it resolves to the body of what the fetcher
  resolves to, or fails with what the fetcher fails with.
\<close>

theorem fragmentBody_absent_name:
  assumes "fragments route name = None"
    and "fragments route ''__proto__'' = None"
  shows "fragmentBody (newFragmentManager route fragmentFetcher context) name options s =
     (case fragmentFetcher
             (if name \<in> set objectPrototypeProperties then Inherited name else Undefined)
             context options s of
        (Inl e, s') \<Rightarrow> (Inl e, s')
      | (Inr f, s') \<Rightarrow> (Inr (body f), s'))"
  using assms(1) by (simp add: fragmentBody_def newFragmentManager_def thenProject_def)

text \<open>
  An instance: the fetcher of local data fails on \<^verbatim>\<open>undefined\<close> with its own error, and
  resolves for the inherited \<open>constructor\<close>, which has no local data.
\<close>

theorem fragmentBody_absent_name_witness:
  "fragmentBody (newFragmentManager greeterRoute localDataFetcher ()) ''ghost'' (Some False) 7 =
     (Inl (TypeError ''Cannot read property localData of undefined''), 8) \<and>
   fragmentBody (newFragmentManager greeterRoute localDataFetcher ()) ''constructor''
     (Some False) 7 = (Inr JUndefined, 8)"
proof -
  have a: "fragments greeterRoute ''ghost'' = None" by (simp add: greeterRoute_def)
  have b: "fragments greeterRoute ''constructor'' = None" by (simp add: greeterRoute_def)
  have p: "fragments greeterRoute ''__proto__'' = None" by (simp add: greeterRoute_def)
  from fragmentBody_absent_name [OF a p, of localDataFetcher "()" "Some False" 7]
       fragmentBody_absent_name [OF b p, of localDataFetcher "()" "Some False" 7]
  show ?thesis
    by (simp add: objectPrototypeProperties_def localDataFetcher_def newFragmentBody_def)
qed

subsection \<open>Claim C9\<close>

text \<open>
  Claim C9. A body string in which the tag expression finds no injection tag is returned
  unchanged by \<^verbatim>\<open>renderRecursive\<close> at every depth up to \<^verbatim>\<open>MAX_DEPTH\<close>: with no match, the
  reconstruction step is the identity.
\<close>

theorem render_without_tags_is_identity:
  assumes "execInject body' 0 = None" and "d \<le> MAX_DEPTH"
  shows "renderRecursive R (JStr body') d = Inr (JStr body')"
  using assms
  by (simp add: renderRecursive.simps [of R "JStr body'" d]
      scanLoop.simps [of R _ d body' 0 "[]"] injectReplacements_def substringFrom_def)

text \<open>An instance: a body of plain markup, rendered at depth 1.\<close>

theorem render_without_tags_is_identity_witness:
  "execInject ''<p>Hello, world</p>'' 0 = None \<and> 1 \<le> MAX_DEPTH \<and>
   renderRecursive (rendererOf plainEngine loopRoute) (JStr ''<p>Hello, world</p>'') 1 =
     Inr (JStr ''<p>Hello, world</p>'')"
proof -
  have h1: "execInject ''<p>Hello, world</p>'' 0 = None" by code_simp
  have h2: "1 \<le> MAX_DEPTH" by (simp add: MAX_DEPTH_def)
  from render_without_tags_is_identity [OF h1 h2] h1 h2 show ?thesis by simp
qed

subsection \<open>Claim C10\<close>

text \<open>
  Claim C10 says that every call to \<^verbatim>\<open>render\<close> invokes the fetcher twice for the base
  fragment. With a fetcher that rejects, \<^verbatim>\<open>render\<close> fails after the first fetch: the
  fetcher's counter stands at 1.
\<close>

theorem render_base_fetches_counterexample:
  "render plainEngine greeterRoute failingFetcher () 0 = (Inl (ExternalError ''Failed to fetch''), 1)"
  by (simp add: render_def newFragmentManager_def baseBody_def fetchBase_def thenProject_def
      failingFetcher_def)

text \<open>
  Claim C10, amended. \<^verbatim>\<open>render\<close> fetches the base fragment through \<^verbatim>\<open>baseBody()\<close>; when
  that fetch fails, \<^verbatim>\<open>render\<close> fails with its error and the fetcher is not invoked again.
  Otherwise it fetches the base fragment a second time through \<^verbatim>\<open>baseContentType()\<close>, from
  the state the first fetch left, and fails with the error of that fetch if it fails. Only
  then does the recursive rendering start, on the body of the first fetch; the content type
  of the result is that of the second fetch, or \<^verbatim>\<open>text/html\<close> when that one is
  \<^verbatim>\<open>undefined\<close>.
\<close>

theorem render_base_fetches:
  assumes "fragmentFetcher (Instance (baseTemplate route)) context None s = (r1, s1)"
    and "fragmentFetcher (Instance (baseTemplate route)) context None s1 = (r2, s2)"
  shows "render E route fragmentFetcher context s =
     (case r1 of
        Inl e \<Rightarrow> (Inl e, s1)
      | Inr first \<Rightarrow>
          (case r2 of
             Inl e \<Rightarrow> (Inl e, s2)
           | Inr second \<Rightarrow>
               (case renderRecursive
                       \<lparr>engine = E, manager = newFragmentManager route fragmentFetcher context,
                        fstate = s2\<rparr>
                       (body first) 1 of
                  Inl e \<Rightarrow> (Inl e, s2)
                | Inr rendered \<Rightarrow>
                    (Inr \<lparr>body = rendered,
                          contentType =
                            (if contentType second = JUndefined then JStr ''text/html''
                             else contentType second)\<rparr>, s2))))"
  using assms
  by (simp add: render_def newFragmentManager_def baseBody_def baseContentType_def fetchBase_def
      thenProject_def newFragmentBody_def split: sum.splits)

text \<open>An instance: the example of the specification, with two calls counted.\<close>

theorem render_base_fetches_witness:
  "render plainEngine greeterRoute localDataFetcher () 0 =
     (Inr \<lparr>body = JStr ''Hello'', contentType = JStr ''text/html''\<rparr>, 2)"
proof -
  have f1: "localDataFetcher (Instance (baseTemplate greeterRoute)) () None 0 =
      (Inr (newFragmentBody (localData (baseTemplate greeterRoute)) JUndefined), 1)"
    by (simp add: localDataFetcher_def)
  have f2: "localDataFetcher (Instance (baseTemplate greeterRoute)) () None 1 =
      (Inr (newFragmentBody (localData (baseTemplate greeterRoute)) JUndefined), 2)"
    by (simp add: localDataFetcher_def)
  have r: "renderRecursive
      \<lparr>engine = plainEngine, manager = newFragmentManager greeterRoute localDataFetcher (),
       fstate = 2\<rparr>
      (body (newFragmentBody (localData (baseTemplate greeterRoute)) JUndefined)) 1 =
      Inr (JStr ''Hello'')"
    by code_simp
  have c: "contentType (newFragmentBody (localData (baseTemplate greeterRoute)) JUndefined) =
      JStr ''text/html''"
    by (simp add: newFragmentBody_def)
  from render_base_fetches
         [where fragmentFetcher = localDataFetcher and route = greeterRoute and E = plainEngine,
          OF f1 f2] r c
  show ?thesis by simp
qed

end
